theory Spec2Isabelle
  imports Main
begin

section \<open>JSON values and MongoDB documents\<close>

text \<open>
  The server (\<^verbatim>\<open>src/index.js\<close>) keeps no schema: a document is whatever object was
  inserted, and every route reads and writes fields by name. A document is therefore an
  ordered list of named values, as a JavaScript object and a BSON document are.

  \<^item> \<open>JNum\<close> is a number (integers only), \<open>JNaN\<close> the number NaN;
  \<^item> \<open>JOid\<close> is an \<^verbatim>\<open>ObjectId\<close>, named by its 24 lower-case hexadecimal digits;
  \<^item> \<open>JDate\<close> is a \<^verbatim>\<open>Date\<close>, in milliseconds;
  \<^item> a field that is absent reads as JavaScript's \<^verbatim>\<open>undefined\<close>: \<open>None\<close>.
\<close>

datatype jvalue =
    JNull
  | JBool bool
  | JNum int
  | JNaN
  | JStr string
  | JOid string
  | JDate nat
  | JArr "jvalue list"
  | JObj "(string \<times> jvalue) list"

type_synonym doc = "(string \<times> jvalue) list"

definition get_field :: "doc \<Rightarrow> string \<Rightarrow> jvalue option" where
  "get_field d k = map_of d k"

text \<open>Assigning a property: an existing property keeps its place, a new one goes last.\<close>

primrec set_field :: "string \<Rightarrow> jvalue \<Rightarrow> doc \<Rightarrow> doc" where
  "set_field k v [] = [(k, v)]"
| "set_field k v (p # ps) = (if fst p = k then (k, v) # ps else p # set_field k v ps)"

text \<open>
  \<^verbatim>\<open>{ ...d, k1: v1, k2: v2 }\<close> and \<^verbatim>\<open>$set: { k1: v1, k2: v2 }\<close>: the listed fields are
  assigned in order. Field names are taken as they are: the paths (\<^verbatim>\<open>a.b\<close>) and the
  operator names (\<^verbatim>\<open>$a\<close>) of MongoDB are not interpreted.
\<close>

definition set_fields :: "doc \<Rightarrow> doc \<Rightarrow> doc" where
  "set_fields kvs d = fold (\<lambda>(k, v). set_field k v) kvs d"


text \<open>The driver writes \<^verbatim>\<open>undefined\<close> as \<^verbatim>\<open>null\<close> (its default, which the server keeps).\<close>

definition bson :: "jvalue option \<Rightarrow> jvalue" where
  "bson v = (case v of None \<Rightarrow> JNull | Some x \<Rightarrow> x)"

text \<open>JavaScript truthiness, as in \<^verbatim>\<open>if (isAdvertised)\<close>.\<close>

fun truthy :: "jvalue option \<Rightarrow> bool" where
  "truthy None = False"
| "truthy (Some JNull) = False"
| "truthy (Some (JBool b)) = b"
| "truthy (Some (JNum n)) = (n \<noteq> 0)"
| "truthy (Some JNaN) = False"
| "truthy (Some (JStr s)) = (s \<noteq> [])"
| "truthy (Some _) = True"

section \<open>Collections\<close>

text \<open>
  A query document \<^verbatim>\<open>{ k1: q1, k2: q2 }\<close> selects the documents whose fields equal the
  given values; an array field also matches through any of its elements, and
  \<^verbatim>\<open>null\<close> also matches an absent field.
\<close>

definition value_matches :: "jvalue option \<Rightarrow> jvalue \<Rightarrow> bool" where
  "value_matches v q =
     (case v of
        None \<Rightarrow> q = JNull
      | Some (JArr xs) \<Rightarrow> JArr xs = q \<or> q \<in> set xs
      | Some x \<Rightarrow> x = q)"

definition matches :: "doc \<Rightarrow> doc \<Rightarrow> bool" where
  "matches q d = list_all (\<lambda>(k, v). value_matches (get_field d k) v) q"

definition findOne :: "doc \<Rightarrow> doc list \<Rightarrow> doc option" where
  "findOne q c = find (matches q) c"

definition countDocuments :: "doc \<Rightarrow> doc list \<Rightarrow> nat" where
  "countDocuments q c = length (filter (matches q) c)"

text \<open>
  The two update operators the server uses. \<^verbatim>\<open>$inc\<close> creates an absent field, adds to a
  number, and is refused by the database on a field that holds anything else; the amount
  must itself be a number.
\<close>

datatype update = Set doc | Inc string jvalue

fun inc_value :: "jvalue option \<Rightarrow> jvalue \<Rightarrow> jvalue option" where
  "inc_value None (JNum m) = Some (JNum m)"
| "inc_value None JNaN = Some JNaN"
| "inc_value (Some (JNum n)) (JNum m) = Some (JNum (n + m))"
| "inc_value (Some (JNum n)) JNaN = Some JNaN"
| "inc_value (Some JNaN) (JNum m) = Some JNaN"
| "inc_value (Some JNaN) JNaN = Some JNaN"
| "inc_value _ _ = None"

fun apply_update :: "update \<Rightarrow> doc \<Rightarrow> doc option" where
  "apply_update (Set kvs) d = Some (set_fields kvs d)"
| "apply_update (Inc k a) d = map_option (\<lambda>v. set_field k v d) (inc_value (get_field d k) a)"

text \<open>
  \<^verbatim>\<open>updateOne\<close> changes the first document that matches and reports \<^verbatim>\<open>matchedCount\<close>;
  \<open>None\<close> is the database refusing the update, which the driver throws.
\<close>

fun updateOne :: "doc \<Rightarrow> update \<Rightarrow> doc list \<Rightarrow> (nat \<times> doc list) option" where
  "updateOne q u [] = Some (0, [])"
| "updateOne q u (d # ds) =
     (if matches q d then map_option (\<lambda>d'. (1, d' # ds)) (apply_update u d)
      else map_option (\<lambda>(n, ds'). (n, d # ds')) (updateOne q u ds))"

fun updateMany :: "doc \<Rightarrow> update \<Rightarrow> doc list \<Rightarrow> doc list option" where
  "updateMany q u [] = Some []"
| "updateMany q u (d # ds) =
     (case (if matches q d then apply_update u d else Some d) of
        None \<Rightarrow> None
      | Some d' \<Rightarrow> map_option ((#) d') (updateMany q u ds))"

text \<open>
  \<^verbatim>\<open>insertOne\<close>: the driver gives a document whose \<^verbatim>\<open>_id\<close> is absent or \<^verbatim>\<open>null\<close> a new
  ObjectId (\<open>newid\<close>, drawn by the driver); the collection refuses an array as \<^verbatim>\<open>_id\<close>, and
  an \<^verbatim>\<open>_id\<close> it already holds. \<open>None\<close> is the refusal, which the driver throws.
\<close>

fun is_array :: "jvalue option \<Rightarrow> bool" where
  "is_array (Some (JArr xs)) = True"
| "is_array _ = False"

definition insertOne :: "string \<Rightarrow> doc \<Rightarrow> doc list \<Rightarrow> doc list option" where
  "insertOne newid d c =
     (let d' = (if get_field d ''_id'' = None \<or> get_field d ''_id'' = Some JNull
                then set_field ''_id'' (JOid newid) d else d)
      in if is_array (get_field d' ''_id'')
            \<or> list_ex (\<lambda>e. get_field e ''_id'' = get_field d' ''_id'') c
         then None
         else Some (c @ [d']))"


section \<open>The database and the responses\<close>

record store =
  users :: "doc list"
  tickets :: "doc list"
  bookings :: "doc list"
  transactions :: "doc list"

datatype response = Response (code: nat) (message: string)

section \<open>ObjectIds\<close>

text \<open>
  \<^verbatim>\<open>ObjectId.isValid(id)\<close> on a route parameter, which is a string: the driver's rule is
  taken to be 24 hexadecimal digits. \<^verbatim>\<open>new ObjectId(id)\<close> of such a string is the
  ObjectId of these digits, whatever their case.
\<close>

definition is_hex :: "char \<Rightarrow> bool" where
  "is_hex c = (c \<in> set ''0123456789abcdefABCDEF'')"

definition ObjectId_isValid :: "string \<Rightarrow> bool" where
  "ObjectId_isValid s = (length s = 24 \<and> list_all is_hex s)"

definition lower_hex :: "char \<Rightarrow> char" where
  "lower_hex c =
     (if c = CHR ''A'' then CHR ''a'' else if c = CHR ''B'' then CHR ''b''
      else if c = CHR ''C'' then CHR ''c'' else if c = CHR ''D'' then CHR ''d''
      else if c = CHR ''E'' then CHR ''e'' else if c = CHR ''F'' then CHR ''f'' else c)"

definition hex_oid :: "string \<Rightarrow> jvalue" where
  "hex_oid s = JOid (map lower_hex s)"

text \<open>
  \<^verbatim>\<open>new ObjectId(v)\<close> of a stored value: \<^verbatim>\<open>undefined\<close>, \<^verbatim>\<open>null\<close> and numbers make the
  driver generate a new ObjectId, which no document carries; a string must be valid;
  an ObjectId is copied; anything else is taken to throw.
\<close>

datatype made = Made jvalue | Generated | Threw

fun new_ObjectId :: "jvalue option \<Rightarrow> made" where
  "new_ObjectId None = Generated"
| "new_ObjectId (Some JNull) = Generated"
| "new_ObjectId (Some (JNum n)) = Generated"
| "new_ObjectId (Some JNaN) = Generated"
| "new_ObjectId (Some (JStr s)) = (if ObjectId_isValid s then Made (hex_oid s) else Threw)"
| "new_ObjectId (Some (JOid h)) = Made (JOid h)"
| "new_ObjectId (Some _) = Threw"

section \<open>Numbers\<close>

text \<open>
  The unary minus of \<^verbatim>\<open>-booking.bookingQuantity\<close> converts its operand to a number first.
  A string is read as a number when it is empty or a run of decimal digits, and is NaN
  otherwise; ObjectIds, arrays and objects are taken as NaN.
\<close>

definition digit_of :: "char \<Rightarrow> int option" where
  "digit_of c = map_of (zip ''0123456789'' [0, 1, 2, 3, 4, 5, 6, 7, 8, 9]) c"

fun digits_value :: "int \<Rightarrow> string \<Rightarrow> int option" where
  "digits_value acc [] = Some acc"
| "digits_value acc (c # cs) =
     (case digit_of c of None \<Rightarrow> None | Some d \<Rightarrow> digits_value (10 * acc + d) cs)"

fun js_negate :: "jvalue option \<Rightarrow> jvalue" where
  "js_negate None = JNaN"
| "js_negate (Some JNull) = JNum 0"
| "js_negate (Some (JBool b)) = JNum (if b then - 1 else 0)"
| "js_negate (Some (JNum n)) = JNum (- n)"
| "js_negate (Some (JStr s)) = (case digits_value 0 s of None \<Rightarrow> JNaN | Some n \<Rightarrow> JNum (- n))"
| "js_negate (Some (JDate t)) = JNum (- int t)"
| "js_negate (Some _) = JNaN"

section \<open>User routes\<close>



text \<open>\<^verbatim>\<open>PATCH /api/users/:email/fraud\<close>\<close>

definition patchUserFraud :: "string \<Rightarrow> nat \<Rightarrow> store \<Rightarrow> response \<times> store" where
  "patchUserFraud email now s =
     (case updateOne [(''email'', JStr email), (''role'', JStr ''vendor'')]
             (Set [(''isFraud'', JBool True), (''updatedAt'', JDate now)]) (users s) of
        None \<Rightarrow> (Response 500 ''Failed to mark vendor as fraud'', s)
      | Some (matchedCount, us) \<Rightarrow>
          if matchedCount = 0 then (Response 404 ''Vendor not found'', s\<lparr>users := us\<rparr>)
          else
            (case updateMany [(''vendorEmail'', JStr email)]
                    (Set [(''verificationStatus'', JStr ''rejected'')]) (tickets s) of
               None \<Rightarrow> (Response 500 ''Failed to mark vendor as fraud'', s\<lparr>users := us\<rparr>)
             | Some ts \<Rightarrow>
                 (Response 200 ''Vendor marked as fraud and all tickets hidden'',
                  s\<lparr>users := us, tickets := ts\<rparr>)))"

section \<open>Ticket routes\<close>

text \<open>\<^verbatim>\<open>POST /api/tickets\<close>\<close>

definition postTicket :: "string \<Rightarrow> nat \<Rightarrow> doc \<Rightarrow> store \<Rightarrow> response \<times> store" where
  "postTicket newid now ticketData s =
     (let newTicket = set_fields
            [(''verificationStatus'', JStr ''pending''),
             (''isAdvertised'', JBool False),
             (''createdAt'', JDate now)] ticketData
      in case insertOne newid newTicket (tickets s) of
           None \<Rightarrow> (Response 500 ''Failed to add ticket'', s)
         | Some ts \<Rightarrow>
             (Response 201 ''Ticket added successfully. Waiting for admin approval.'',
              s\<lparr>tickets := ts\<rparr>))"



text \<open>\<^verbatim>\<open>PATCH /api/tickets/:id/verify\<close>\<close>

definition patchTicketVerify :: "string \<Rightarrow> nat \<Rightarrow> doc \<Rightarrow> store \<Rightarrow> response \<times> store" where
  "patchTicketVerify tid now body s =
     (let verificationStatus = get_field body ''verificationStatus'' in
      if \<not> ObjectId_isValid tid then (Response 400 ''Invalid ticket ID'', s)
      else if verificationStatus \<noteq> Some (JStr ''approved'')
              \<and> verificationStatus \<noteq> Some (JStr ''rejected'')
      then (Response 400 ''Invalid verification status. Must be \"approved\" or \"rejected\"'', s)
      else
        case updateOne [(''_id'', hex_oid tid)]
               (Set [(''verificationStatus'', bson verificationStatus),
                     (''verifiedAt'', JDate now)]) (tickets s) of
          None \<Rightarrow> (Response 500 ''Failed to verify ticket'', s)
        | Some (matchedCount, ts) \<Rightarrow>
            if matchedCount = 0 then (Response 404 ''Ticket not found'', s\<lparr>tickets := ts\<rparr>)
            else (Response 200
                    (''Ticket '' @ (case verificationStatus of Some (JStr v) \<Rightarrow> v | _ \<Rightarrow> [])
                       @ '' successfully''), s\<lparr>tickets := ts\<rparr>))"

text \<open>
  \<^verbatim>\<open>PATCH /api/tickets/:id/advertise\<close>. The tickets that hold an advertisement slot are
  those the route counts (and \<^verbatim>\<open>GET /api/tickets/advertised\<close> lists): the query below.
\<close>

definition advertised_query :: doc where
  "advertised_query = [(''isAdvertised'', JBool True), (''verificationStatus'', JStr ''approved'')]"

definition patchTicketAdvertise :: "string \<Rightarrow> nat \<Rightarrow> doc \<Rightarrow> store \<Rightarrow> response \<times> store" where
  "patchTicketAdvertise tid now body s =
     (let isAdvertised = get_field body ''isAdvertised'' in
      if \<not> ObjectId_isValid tid then (Response 400 ''Invalid ticket ID'', s)
      else if truthy isAdvertised
              \<and> countDocuments advertised_query (tickets s) \<ge> 6
      then (Response 400
              ''Cannot advertise more than 6 tickets. Please unadvertise one first.'', s)
      else
        case updateOne [(''_id'', hex_oid tid), (''verificationStatus'', JStr ''approved'')]
               (Set [(''isAdvertised'', bson isAdvertised),
                     (''advertisedAt'', if truthy isAdvertised then JDate now else JNull)])
               (tickets s) of
          None \<Rightarrow> (Response 500 ''Failed to update advertisement status'', s)
        | Some (matchedCount, ts) \<Rightarrow>
            if matchedCount = 0
            then (Response 404 ''Ticket not found or not approved'', s\<lparr>tickets := ts\<rparr>)
            else (Response 200
                    (if truthy isAdvertised then ''Ticket advertised successfully''
                     else ''Ticket unadvertised successfully''), s\<lparr>tickets := ts\<rparr>))"

section \<open>Booking routes\<close>




text \<open>
  \<^verbatim>\<open>PATCH /api/bookings/:id/pay\<close>. The booking is read, then written, then the ticket is
  written; an exception after the first write leaves that write in place.
\<close>

definition patchBookingPay :: "string \<Rightarrow> nat \<Rightarrow> doc \<Rightarrow> store \<Rightarrow> response \<times> store" where
  "patchBookingPay bid now body s =
     (let transactionId = get_field body ''transactionId'' in
      if \<not> ObjectId_isValid bid then (Response 400 ''Invalid booking ID'', s)
      else
        case findOne [(''_id'', hex_oid bid)] (bookings s) of
          None \<Rightarrow> (Response 404 ''Booking not found'', s)
        | Some booking \<Rightarrow>
            (case updateOne [(''_id'', hex_oid bid)]
                    (Set [(''status'', JStr ''paid''),
                          (''transactionId'', bson transactionId),
                          (''paidAt'', JDate now)]) (bookings s) of
               None \<Rightarrow> (Response 500 ''Failed to record payment'', s)
             | Some (_, bs) \<Rightarrow>
                 (case new_ObjectId (get_field booking ''ticketId'') of
                    Threw \<Rightarrow> (Response 500 ''Failed to record payment'', s\<lparr>bookings := bs\<rparr>)
                  | Generated \<Rightarrow> (Response 200 ''Payment recorded successfully'', s\<lparr>bookings := bs\<rparr>)
                  | Made ticketId \<Rightarrow>
                      (case updateOne [(''_id'', ticketId)]
                              (Inc ''quantity'' (js_negate (get_field booking ''bookingQuantity'')))
                              (tickets s) of
                         None \<Rightarrow> (Response 500 ''Failed to record payment'', s\<lparr>bookings := bs\<rparr>)
                       | Some (_, ts) \<Rightarrow>
                           (Response 200 ''Payment recorded successfully'',
                            s\<lparr>bookings := bs, tickets := ts\<rparr>)))))"

section \<open>Transaction routes\<close>


section \<open>The routes that write\<close>







section \<open>Runs of requests\<close>

text \<open>Requests served one after the other, each on the store the previous one left.\<close>

fun advertiseAll :: "(string \<times> nat \<times> doc) list \<Rightarrow> store \<Rightarrow> store" where
  "advertiseAll [] s = s"
| "advertiseAll ((tid, now, body) # rs) s = advertiseAll rs (snd (patchTicketAdvertise tid now body s))"


section \<open>Example data\<close>

definition vendor_v :: doc where
  "vendor_v = [(''email'', JStr ''v@x.io''), (''role'', JStr ''vendor'')]"

text \<open>An approved, advertised ticket with two seats left, and an accepted booking of three.\<close>

definition ticket_a1 :: doc where
  "ticket_a1 =
     [(''_id'', JOid ''0000000000000000000000a1''), (''vendorEmail'', JStr ''v@x.io''),
      (''quantity'', JNum 2), (''verificationStatus'', JStr ''approved''),
      (''isAdvertised'', JBool True)]"

definition booking_b1 :: doc where
  "booking_b1 =
     [(''_id'', JOid ''0000000000000000000000b1''),
      (''ticketId'', JStr ''0000000000000000000000a1''),
      (''bookingQuantity'', JNum 3), (''status'', JStr ''accepted'')]"

definition store0 :: store where
  "store0 = \<lparr>users = [vendor_v], tickets = [ticket_a1], bookings = [booking_b1],
              transactions = []\<rparr>"



text \<open>A rejected ticket that still carries the flag, a paid booking and a rejected one.\<close>

definition ticket_a3 :: doc where
  "ticket_a3 =
     [(''_id'', JOid ''0000000000000000000000a3''), (''vendorEmail'', JStr ''v@x.io''),
      (''quantity'', JNum 9), (''verificationStatus'', JStr ''rejected''),
      (''isAdvertised'', JBool True)]"

definition booking_b2 :: doc where
  "booking_b2 =
     [(''_id'', JOid ''0000000000000000000000b2''),
      (''ticketId'', JStr ''0000000000000000000000a3''),
      (''bookingQuantity'', JNum 1), (''status'', JStr ''paid'')]"

definition booking_b3 :: doc where
  "booking_b3 =
     [(''_id'', JOid ''0000000000000000000000b3''),
      (''ticketId'', JStr ''0000000000000000000000a3''),
      (''bookingQuantity'', JNum 1), (''status'', JStr ''rejected'')]"

definition store1 :: store where
  "store1 = \<lparr>users = [vendor_v], tickets = [ticket_a3], bookings = [booking_b2, booking_b3],
              transactions = []\<rparr>"

text \<open>Five advertised tickets and two approved ones that are not advertised.\<close>

definition pool_ticket :: "string \<Rightarrow> bool \<Rightarrow> doc" where
  "pool_ticket i adv =
     [(''_id'', JOid i), (''verificationStatus'', JStr ''approved''), (''isAdvertised'', JBool adv)]"

definition store5 :: store where
  "store5 =
     \<lparr>users = [],
      tickets =
        [pool_ticket ''0000000000000000000000c1'' True,
         pool_ticket ''0000000000000000000000c2'' True,
         pool_ticket ''0000000000000000000000c3'' True,
         pool_ticket ''0000000000000000000000c4'' True,
         pool_ticket ''0000000000000000000000c5'' True,
         pool_ticket ''0000000000000000000000c6'' False,
         pool_ticket ''0000000000000000000000c7'' False],
      bookings = [], transactions = []\<rparr>"

definition grant :: doc where
  "grant = [(''isAdvertised'', JBool True)]"

definition revoke :: doc where
  "revoke = [(''isAdvertised'', JBool False)]"

text \<open>Request bodies: a ticket that asks to be approved and advertised, a vendor update.\<close>

definition ticket_request :: doc where
  "ticket_request =
     [(''title'', JStr ''Dhaka - Sylhet''), (''quantity'', JNum 40),
      (''verificationStatus'', JStr ''approved''), (''isAdvertised'', JBool True)]"


section \<open>Properties of documents\<close>

lemma get_set_field: "get_field (set_field k v d) k' = (if k' = k then Some v else get_field d k')"
  by (induction d) (auto simp: get_field_def)

lemma get_set_fields_other:
  "k \<notin> fst ` set kvs \<Longrightarrow> get_field (set_fields kvs d) k = get_field d k"
  unfolding set_fields_def by (induction kvs arbitrary: d) (auto simp: get_set_field)

lemma set_field_twice: "set_field k v (set_field k v' d) = set_field k v d"
  by (induction d) auto

lemma set_field_same: "get_field d k = Some v \<Longrightarrow> set_field k v d = d"
  by (induction d) (auto simp: get_field_def)

lemma set_field_swap:
  "a \<noteq> b \<Longrightarrow> get_field d a \<noteq> None \<Longrightarrow>
   set_field a x (set_field b y d) = set_field b y (set_field a x d)"
  by (induction d) (auto simp: get_field_def)







section \<open>Properties of queries and updates\<close>

lemma matches_cong:
  "(\<And>k. k \<in> fst ` set q \<Longrightarrow> get_field d' k = get_field d k) \<Longrightarrow> matches q d' = matches q d"
  unfolding matches_def by (induction q) auto

lemma matches_set_fields:
  "fst ` set kvs \<inter> fst ` set q = {} \<Longrightarrow> matches q (set_fields kvs d) = matches q d"
proof (rule matches_cong)
  fix k assume "fst ` set kvs \<inter> fst ` set q = {}" "k \<in> fst ` set q"
  then have "k \<notin> fst ` set kvs" by blast
  then show "get_field (set_fields kvs d) k = get_field d k" by (rule get_set_fields_other)
qed



lemma findOne_matches: "findOne q c = Some d \<Longrightarrow> matches q d"
  by (auto simp: findOne_def find_Some_iff)

lemma updateOne_not_found: "findOne q c = None \<Longrightarrow> updateOne q u c = Some (0, c)"
  by (induction c) (auto simp: findOne_def split: if_splits)

lemma updateOne_found:
  "findOne q c = Some d \<Longrightarrow> apply_update u d = Some d' \<Longrightarrow> matches q d' \<Longrightarrow>
   \<exists>c'. updateOne q u c = Some (1, c') \<and> findOne q c' = Some d'"
  by (induction c) (auto simp: findOne_def split: if_splits)

lemma updateOne_Set_found:
  assumes "findOne q c = Some d" and "fst ` set kvs \<inter> fst ` set q = {}"
  shows "\<exists>c'. updateOne q (Set kvs) c = Some (1, c') \<and> findOne q c' = Some (set_fields kvs d)"
proof -
  have "matches q (set_fields kvs d)"
    using findOne_matches [OF assms(1)] matches_set_fields [OF assms(2)] by simp
  with updateOne_found [OF assms(1), of "Set kvs"] show ?thesis by simp
qed


lemma updateOne_count:
  "updateOne q u c = Some (n, c') \<Longrightarrow> countDocuments f c' \<le> countDocuments f c + 1"
proof (induction c arbitrary: n c')
  case Nil
  then show ?case by (simp add: countDocuments_def)
next
  case (Cons d ds)
  show ?case
  proof (cases "matches q d")
    case True
    with Cons.prems show ?thesis by (auto simp: countDocuments_def)
  next
    case False
    with Cons.prems obtain ds' where u: "updateOne q u ds = Some (n, ds')" and c': "c' = d # ds'"
      by auto
    from Cons.IH [OF u] show ?thesis by (simp add: c' countDocuments_def)
  qed
qed

lemma updateOne_count_same:
  assumes "updateOne q u c = Some (n, c')"
    and "\<And>d d'. apply_update u d = Some d' \<Longrightarrow> \<not> matches f d'"
  shows "countDocuments f c' \<le> countDocuments f c"
  using assms(1)
proof (induction c arbitrary: n c')
  case Nil
  then show ?case by (simp add: countDocuments_def)
next
  case (Cons d ds)
  show ?case
  proof (cases "matches q d")
    case True
    with Cons.prems assms(2) show ?thesis by (auto simp: countDocuments_def)
  next
    case False
    with Cons.prems obtain ds' where u: "updateOne q u ds = Some (n, ds')" and c': "c' = d # ds'"
      by auto
    from Cons.IH [OF u] show ?thesis by (simp add: c' countDocuments_def)
  qed
qed

lemma updateOne_Set_twice:
  assumes "fst ` set kvs1 \<inter> fst ` set q = {}"
    and "\<And>d. set_fields kvs2 (set_fields kvs1 d) = set_fields kvs2 d"
    and "updateOne q (Set kvs1) c = Some (n, c1)"
  shows "updateOne q (Set kvs2) c1 = updateOne q (Set kvs2) c"
  using assms(3)
proof (induction c arbitrary: n c1)
  case Nil
  then show ?case by simp
next
  case (Cons d ds)
  show ?case
  proof (cases "matches q d")
    case True
    with Cons.prems have "c1 = set_fields kvs1 d # ds" by auto
    with True assms(2) matches_set_fields [OF assms(1), of d] show ?thesis by simp
  next
    case False
    with Cons.prems obtain ds' where u: "updateOne q (Set kvs1) ds = Some (n, ds')"
      and c1: "c1 = d # ds'" by auto
    from Cons.IH [OF u] False show ?thesis by (simp add: c1)
  qed
qed

lemma updateMany_Set:
  "updateMany q (Set kvs) c = Some (map (\<lambda>d. if matches q d then set_fields kvs d else d) c)"
  by (induction c) auto


section \<open>Ticket creation\<close>

text \<open>
  C10. Whatever the request body of \<^verbatim>\<open>POST /api/tickets\<close> says, a ticket that is stored
  (response 201) is appended to the collection with \<^verbatim>\<open>verificationStatus = 'pending'\<close>
  and \<^verbatim>\<open>isAdvertised = false\<close>: the two fields are assigned after the body is spread.
  Any other response leaves the store as it was.
\<close>

theorem postTicket_pending_unadvertised:
  "(code (fst (postTicket newid now ticketData s)) = 201 \<longrightarrow>
      (\<exists>d. tickets (snd (postTicket newid now ticketData s)) = tickets s @ [d]
          \<and> get_field d ''verificationStatus'' = Some (JStr ''pending'')
          \<and> get_field d ''isAdvertised'' = Some (JBool False)))
   \<and> (code (fst (postTicket newid now ticketData s)) \<noteq> 201 \<longrightarrow>
        snd (postTicket newid now ticketData s) = s)"
  by (auto simp: postTicket_def insertOne_def Let_def set_fields_def get_set_field
           split: option.splits)

text \<open>The body of \<open>ticket_request\<close> asks for an approved, advertised ticket.\<close>

theorem postTicket_pending_unadvertised_witness:
  "code (fst (postTicket ''0000000000000000000000a2'' 7 ticket_request store0)) = 201
   \<and> (\<exists>d. tickets (snd (postTicket ''0000000000000000000000a2'' 7 ticket_request store0))
             = tickets store0 @ [d]
          \<and> get_field d ''verificationStatus'' = Some (JStr ''pending'')
          \<and> get_field d ''isAdvertised'' = Some (JBool False))"
proof -
  have c: "code (fst (postTicket ''0000000000000000000000a2'' 7 ticket_request store0)) = 201"
    by code_simp
  with postTicket_pending_unadvertised
         [of "''0000000000000000000000a2''" 7 ticket_request store0]
  show ?thesis by blast
qed

section \<open>Advertisement slots\<close>

lemma falsy_not_true: "\<not> truthy v \<Longrightarrow> \<not> value_matches (Some (bson v)) (JBool True)"
  by (induction v rule: truthy.induct) (auto simp: value_matches_def bson_def)

lemma patchTicketAdvertise_bound:
  assumes "countDocuments advertised_query (tickets s) \<le> 6"
  shows "countDocuments advertised_query (tickets (snd (patchTicketAdvertise tid now body s))) \<le> 6"
proof (cases "truthy (get_field body ''isAdvertised'')")
  case True
  show ?thesis
  proof (cases "6 \<le> countDocuments advertised_query (tickets s)")
    case full: True
    with True assms show ?thesis by (simp add: patchTicketAdvertise_def Let_def)
  next
    case False
    then have "countDocuments advertised_query (tickets s) + 1 \<le> 6" by simp
    with updateOne_count [where f = advertised_query and c = "tickets s"] assms show ?thesis
      by (fastforce simp: patchTicketAdvertise_def Let_def split: option.splits)
  qed
next
  case False
  have "\<not> matches advertised_query d'"
    if "apply_update (Set [(''isAdvertised'', bson (get_field body ''isAdvertised'')),
                           (''advertisedAt'', JNull)]) d = Some d'" for d d'
    using that falsy_not_true [OF False]
    by (auto simp: matches_def advertised_query_def set_fields_def get_set_field)
  from updateOne_count_same [where f = advertised_query and c = "tickets s", OF _ this]
    assms False
  show ?thesis
    by (fastforce simp: patchTicketAdvertise_def Let_def split: option.splits)
qed

lemma advertiseAll_bound:
  "countDocuments advertised_query (tickets s) \<le> 6 \<Longrightarrow>
   countDocuments advertised_query (tickets (advertiseAll rs s)) \<le> 6"
  by (induction rs s rule: advertiseAll.induct) (auto intro: patchTicketAdvertise_bound)

text \<open>
  C4. Requests to \<^verbatim>\<open>PATCH /api/tickets/:id/advertise\<close> served one after the other never
  take the number of tickets with \<^verbatim>\<open>isAdvertised = true\<close> and
  \<^verbatim>\<open>verificationStatus = 'approved'\<close> above 6, from a store where it is at most 6; and
  a request with \<^verbatim>\<open>isAdvertised: true\<close> made when 6 or more are counted is answered 400
  (``Cannot advertise more than 6 tickets'' when the id is well formed) and writes nothing.
\<close>

theorem advertise_slot_bound:
  "(countDocuments advertised_query (tickets s) \<le> 6 \<longrightarrow>
      countDocuments advertised_query (tickets (advertiseAll rs s)) \<le> 6)
   \<and> (6 \<le> countDocuments advertised_query (tickets s)
        \<and> get_field body ''isAdvertised'' = Some (JBool True) \<longrightarrow>
      patchTicketAdvertise tid now body s =
        (if ObjectId_isValid tid
         then Response 400 ''Cannot advertise more than 6 tickets. Please unadvertise one first.''
         else Response 400 ''Invalid ticket ID'', s))"
  by (simp add: advertiseAll_bound patchTicketAdvertise_def Let_def)

text \<open>
  With five slots taken, the first grant is served and the second is refused: six tickets
  are advertised after both, and the store is as the first grant left it.
\<close>

theorem advertise_slot_bound_witness:
  "countDocuments advertised_query (tickets store5) = 5
   \<and> countDocuments advertised_query (tickets
        (advertiseAll [(''0000000000000000000000c6'', 7, grant),
                       (''0000000000000000000000c7'', 8, grant)] store5)) \<le> 6
   \<and> countDocuments advertised_query (tickets
        (advertiseAll [(''0000000000000000000000c6'', 7, grant)] store5)) = 6
   \<and> patchTicketAdvertise ''0000000000000000000000c7'' 8 grant
        (advertiseAll [(''0000000000000000000000c6'', 7, grant)] store5)
      = (Response 400 ''Cannot advertise more than 6 tickets. Please unadvertise one first.'',
         advertiseAll [(''0000000000000000000000c6'', 7, grant)] store5)"
proof -
  have five: "countDocuments advertised_query (tickets store5) = 5"
    by code_simp
  have six: "countDocuments advertised_query (tickets
        (advertiseAll [(''0000000000000000000000c6'', 7, grant)] store5)) = 6"
    by code_simp
  have g: "get_field grant ''isAdvertised'' = Some (JBool True)"
    by code_simp
  have v: "ObjectId_isValid ''0000000000000000000000c7''"
    by code_simp
  from five
    advertise_slot_bound [of store5 "[(''0000000000000000000000c6'', 7, grant),
                       (''0000000000000000000000c7'', 8, grant)]"]
  have a: "countDocuments advertised_query (tickets
        (advertiseAll [(''0000000000000000000000c6'', 7, grant),
                       (''0000000000000000000000c7'', 8, grant)] store5)) \<le> 6"
    by simp
  from six g v
    advertise_slot_bound [of "advertiseAll [(''0000000000000000000000c6'', 7, grant)] store5"
       "[]" grant "''0000000000000000000000c7''" 8]
  have b: "patchTicketAdvertise ''0000000000000000000000c7'' 8 grant
        (advertiseAll [(''0000000000000000000000c6'', 7, grant)] store5)
      = (Response 400 ''Cannot advertise more than 6 tickets. Please unadvertise one first.'',
         advertiseAll [(''0000000000000000000000c6'', 7, grant)] store5)"
    by simp
  from five six a b show ?thesis by blast
qed

text \<open>
  The bound is kept by \<^verbatim>\<open>advertise\<close>, not by the server as a whole: a ticket that is
  rejected keeps its flag, so approving it again brings it back among the advertised
  tickets without any count. In \<open>store5\<close>, after a sixth slot is granted, the first
  ticket is rejected, a slot is granted to the seventh, and the first is approved again:
  seven tickets are advertised.
\<close>

lemma reapproval_exceeds_six:
  "countDocuments advertised_query (tickets
     (snd (patchTicketVerify ''0000000000000000000000c1'' 10
             [(''verificationStatus'', JStr ''approved'')]
        (snd (patchTicketAdvertise ''0000000000000000000000c7'' 9 grant
           (snd (patchTicketVerify ''0000000000000000000000c1'' 8
                   [(''verificationStatus'', JStr ''rejected'')]
              (snd (patchTicketAdvertise ''0000000000000000000000c6'' 7 grant store5))))))))) = 7"
  by code_simp

text \<open>
  C8, as the code has it. The update of \<^verbatim>\<open>PATCH /api/tickets/:id/advertise\<close> selects the
  ticket by \<^verbatim>\<open>_id\<close> and \<^verbatim>\<open>verificationStatus: 'approved'\<close>, also when the flag is being
  cleared. With a well-formed id and \<^verbatim>\<open>isAdvertised: false\<close>: an approved ticket is
  answered 200 and gets \<^verbatim>\<open>isAdvertised = false\<close> and \<^verbatim>\<open>advertisedAt = null\<close>, whatever its
  flag was; a ticket that is absent or not approved is answered 404 and nothing is written.
\<close>

theorem revokeSlot_approved_only:
  assumes "ObjectId_isValid tid" and "get_field body ''isAdvertised'' = Some (JBool False)"
  shows "(findOne [(''_id'', hex_oid tid), (''verificationStatus'', JStr ''approved'')] (tickets s)
            = None \<longrightarrow>
          patchTicketAdvertise tid now body s
            = (Response 404 ''Ticket not found or not approved'', s))
       \<and> (\<forall>d. findOne [(''_id'', hex_oid tid), (''verificationStatus'', JStr ''approved'')]
                 (tickets s) = Some d \<longrightarrow>
            fst (patchTicketAdvertise tid now body s)
              = Response 200 ''Ticket unadvertised successfully''
          \<and> findOne [(''_id'', hex_oid tid), (''verificationStatus'', JStr ''approved'')]
                (tickets (snd (patchTicketAdvertise tid now body s)))
              = Some (set_fields [(''isAdvertised'', JBool False), (''advertisedAt'', JNull)] d))"
proof (intro conjI impI allI)
  assume "findOne [(''_id'', hex_oid tid), (''verificationStatus'', JStr ''approved'')] (tickets s)
            = None"
  from updateOne_not_found [OF this] assms
  show "patchTicketAdvertise tid now body s
            = (Response 404 ''Ticket not found or not approved'', s)"
    by (simp add: patchTicketAdvertise_def Let_def)
next
  fix d
  assume "findOne [(''_id'', hex_oid tid), (''verificationStatus'', JStr ''approved'')] (tickets s)
            = Some d"
  from updateOne_Set_found
         [OF this, of "[(''isAdvertised'', JBool False), (''advertisedAt'', JNull)]"]
  obtain ts where ts:
    "updateOne [(''_id'', hex_oid tid), (''verificationStatus'', JStr ''approved'')]
       (Set [(''isAdvertised'', JBool False), (''advertisedAt'', JNull)]) (tickets s) = Some (1, ts)"
    "findOne [(''_id'', hex_oid tid), (''verificationStatus'', JStr ''approved'')] ts
       = Some (set_fields [(''isAdvertised'', JBool False), (''advertisedAt'', JNull)] d)"
    by auto
  with assms
  show "fst (patchTicketAdvertise tid now body s) = Response 200 ''Ticket unadvertised successfully''"
    and "findOne [(''_id'', hex_oid tid), (''verificationStatus'', JStr ''approved'')]
                (tickets (snd (patchTicketAdvertise tid now body s)))
              = Some (set_fields [(''isAdvertised'', JBool False), (''advertisedAt'', JNull)] d)"
    by (simp_all add: patchTicketAdvertise_def Let_def bson_def)
qed

text \<open>The approved ticket of \<open>store0\<close> loses its flag; the rejected one of \<open>store1\<close> is refused.\<close>

theorem revokeSlot_approved_only_witness:
  "fst (patchTicketAdvertise ''0000000000000000000000a1'' 7 revoke store0)
     = Response 200 ''Ticket unadvertised successfully''
   \<and> findOne [(''_id'', hex_oid ''0000000000000000000000a1''),
               (''verificationStatus'', JStr ''approved'')]
        (tickets (snd (patchTicketAdvertise ''0000000000000000000000a1'' 7 revoke store0)))
     = Some (set_fields [(''isAdvertised'', JBool False), (''advertisedAt'', JNull)] ticket_a1)
   \<and> patchTicketAdvertise ''0000000000000000000000a3'' 7 revoke store1
     = (Response 404 ''Ticket not found or not approved'', store1)"
proof -
  have v: "ObjectId_isValid ''0000000000000000000000a1''" "ObjectId_isValid ''0000000000000000000000a3''"
    by code_simp+
  have r: "get_field revoke ''isAdvertised'' = Some (JBool False)"
    by code_simp
  have f: "findOne [(''_id'', hex_oid ''0000000000000000000000a1''),
                    (''verificationStatus'', JStr ''approved'')] (tickets store0) = Some ticket_a1"
    by code_simp
  have n: "findOne [(''_id'', hex_oid ''0000000000000000000000a3''),
                    (''verificationStatus'', JStr ''approved'')] (tickets store1) = None"
    by code_simp
  from revokeSlot_approved_only [OF v(1) r, of store0 7] f
       revokeSlot_approved_only [OF v(2) r, of store1 7] n
  show ?thesis by simp
qed

text \<open>
  The claim fails on an existing ticket that is not approved: \<open>ticket_a3\<close> is rejected and
  carries \<^verbatim>\<open>isAdvertised = true\<close>; clearing its flag is answered 404 and the store is
  unchanged, flag included.
\<close>

theorem revoke_unapproved_counterexample:
  "findOne [(''_id'', JOid ''0000000000000000000000a3'')] (tickets store1) = Some ticket_a3
   \<and> get_field ticket_a3 ''isAdvertised'' = Some (JBool True)
   \<and> patchTicketAdvertise ''0000000000000000000000a3'' 7 [(''isAdvertised'', JBool False)] store1
     = (Response 404 ''Ticket not found or not approved'', store1)"
  by code_simp

section \<open>Booking decisions\<close>




section \<open>Payment\<close>

lemma pay_bookings:
  assumes "ObjectId_isValid bid" and "findOne [(''_id'', hex_oid bid)] (bookings s) = Some b"
  shows "\<exists>bs. updateOne [(''_id'', hex_oid bid)]
               (Set [(''status'', JStr ''paid''),
                     (''transactionId'', bson (get_field body ''transactionId'')),
                     (''paidAt'', JDate now)]) (bookings s) = Some (1, bs)
            \<and> bookings (snd (patchBookingPay bid now body s)) = bs
            \<and> code (fst (patchBookingPay bid now body s)) \<in> {200, 500}
            \<and> findOne [(''_id'', hex_oid bid)] bs
              = Some (set_fields [(''status'', JStr ''paid''),
                     (''transactionId'', bson (get_field body ''transactionId'')),
                     (''paidAt'', JDate now)] b)"
proof -
  from updateOne_Set_found [OF assms(2), of "[(''status'', JStr ''paid''),
                     (''transactionId'', bson (get_field body ''transactionId'')),
                     (''paidAt'', JDate now)]"]
  obtain bs where bs: "updateOne [(''_id'', hex_oid bid)]
               (Set [(''status'', JStr ''paid''),
                     (''transactionId'', bson (get_field body ''transactionId'')),
                     (''paidAt'', JDate now)]) (bookings s) = Some (1, bs)"
     "findOne [(''_id'', hex_oid bid)] bs
              = Some (set_fields [(''status'', JStr ''paid''),
                     (''transactionId'', bson (get_field body ''transactionId'')),
                     (''paidAt'', JDate now)] b)" by auto
  with assms show ?thesis
    by (simp add: patchBookingPay_def Let_def split: made.splits option.splits)
qed





text \<open>
  C3, as the code has it. \<^verbatim>\<open>PATCH /api/bookings/:id/pay\<close> reads the booking only to learn
  its ticket and quantity; it never reads its status. An existing booking, whatever its
  status, has \<^verbatim>\<open>status = 'paid'\<close>, the transaction id of the request and the time of
  payment afterwards, and the answer is 200 (or 500 when the later write to the ticket
  throws). The only outcomes that leave the booking as it was are 400 for a malformed id
  and 404 for an absent booking, which leave the whole store as it was.
\<close>

theorem markPaid_ignores_status:
  "(\<not> ObjectId_isValid bid \<longrightarrow>
      patchBookingPay bid now body s = (Response 400 ''Invalid booking ID'', s))
   \<and> (ObjectId_isValid bid \<and> findOne [(''_id'', hex_oid bid)] (bookings s) = None \<longrightarrow>
      patchBookingPay bid now body s = (Response 404 ''Booking not found'', s))
   \<and> (ObjectId_isValid bid \<and> findOne [(''_id'', hex_oid bid)] (bookings s) = Some b \<longrightarrow>
      code (fst (patchBookingPay bid now body s)) \<in> {200, 500}
      \<and> findOne [(''_id'', hex_oid bid)] (bookings (snd (patchBookingPay bid now body s)))
          = Some (set_fields [(''status'', JStr ''paid''),
                              (''transactionId'', bson (get_field body ''transactionId'')),
                              (''paidAt'', JDate now)] b))"
proof (intro conjI impI)
  assume "\<not> ObjectId_isValid bid"
  then show "patchBookingPay bid now body s = (Response 400 ''Invalid booking ID'', s)"
    by (simp add: patchBookingPay_def Let_def)
next
  assume "ObjectId_isValid bid \<and> findOne [(''_id'', hex_oid bid)] (bookings s) = None"
  then show "patchBookingPay bid now body s = (Response 404 ''Booking not found'', s)"
    by (simp add: patchBookingPay_def Let_def)
next
  assume a: "ObjectId_isValid bid \<and> findOne [(''_id'', hex_oid bid)] (bookings s) = Some b"
  with pay_bookings [of bid s b body now]
  show "code (fst (patchBookingPay bid now body s)) \<in> {200, 500}"
    and "findOne [(''_id'', hex_oid bid)] (bookings (snd (patchBookingPay bid now body s)))
          = Some (set_fields [(''status'', JStr ''paid''),
                              (''transactionId'', bson (get_field body ''transactionId'')),
                              (''paidAt'', JDate now)] b)"
    by auto
qed

text \<open>
  The rejected booking of \<open>store1\<close> is paid on request; a malformed id and an unknown one
  are refused.
\<close>

theorem markPaid_ignores_status_witness:
  "get_field booking_b3 ''status'' = Some (JStr ''rejected'')
   \<and> code (fst (patchBookingPay ''0000000000000000000000b3'' 7 [] store1)) \<in> {200, 500}
   \<and> findOne [(''_id'', hex_oid ''0000000000000000000000b3'')]
        (bookings (snd (patchBookingPay ''0000000000000000000000b3'' 7 [] store1)))
      = Some (set_fields [(''status'', JStr ''paid''),
                          (''transactionId'', bson (get_field [] ''transactionId'')),
                          (''paidAt'', JDate 7)] booking_b3)
   \<and> patchBookingPay ''b3'' 7 [] store1 = (Response 400 ''Invalid booking ID'', store1)
   \<and> patchBookingPay ''0000000000000000000000b9'' 7 [] store1
      = (Response 404 ''Booking not found'', store1)"
proof -
  have v: "ObjectId_isValid ''0000000000000000000000b3''"
    "ObjectId_isValid ''0000000000000000000000b9''" "\<not> ObjectId_isValid ''b3''"
    by code_simp+
  have f: "findOne [(''_id'', hex_oid ''0000000000000000000000b3'')] (bookings store1)
             = Some booking_b3"
    by code_simp
  have n: "findOne [(''_id'', hex_oid ''0000000000000000000000b9'')] (bookings store1) = None"
    by code_simp
  have r: "get_field booking_b3 ''status'' = Some (JStr ''rejected'')"
    by code_simp
  from v f n r
    markPaid_ignores_status [of "''0000000000000000000000b3''" 7 "[]" store1 booking_b3]
    markPaid_ignores_status [of "''0000000000000000000000b9''" 7 "[]" store1]
    markPaid_ignores_status [of "''b3''" 7 "[]" store1]
  show ?thesis by simp
qed

text \<open>
  The claim fails on a booking that is not accepted: paying the rejected \<open>booking_b3\<close> is
  answered 200 and takes its status from \<^verbatim>\<open>'rejected'\<close>, a terminal state, to \<^verbatim>\<open>'paid'\<close>.
\<close>

theorem pay_rejected_booking_counterexample:
  "bookings store1 ! 1 =
     [(''_id'', JOid ''0000000000000000000000b3''),
      (''ticketId'', JStr ''0000000000000000000000a3''),
      (''bookingQuantity'', JNum 1), (''status'', JStr ''rejected'')]
   \<and> fst (patchBookingPay ''0000000000000000000000b3'' 7 [(''transactionId'', JStr ''tx_9'')] store1)
       = Response 200 ''Payment recorded successfully''
   \<and> bookings (snd (patchBookingPay ''0000000000000000000000b3'' 7
                       [(''transactionId'', JStr ''tx_9'')] store1)) ! 1 =
     [(''_id'', JOid ''0000000000000000000000b3''),
      (''ticketId'', JStr ''0000000000000000000000a3''),
      (''bookingQuantity'', JNum 1), (''status'', JStr ''paid''),
      (''transactionId'', JStr ''tx_9''), (''paidAt'', JDate 7)]"
  by code_simp







section \<open>Rejection and the fraud cascade\<close>

lemma rejected_not_advertised:
  "get_field d ''verificationStatus'' = Some (JStr ''rejected'') \<Longrightarrow> \<not> matches advertised_query d"
  by (simp add: matches_def advertised_query_def value_matches_def)


lemma fraud_tickets:
  "tickets (snd (patchUserFraud email now s))
     = (if code (fst (patchUserFraud email now s)) = 200
        then map (\<lambda>d. if matches [(''vendorEmail'', JStr email)] d
                       then set_fields [(''verificationStatus'', JStr ''rejected'')] d else d)
                 (tickets s)
        else tickets s)"
  by (auto simp: patchUserFraud_def updateMany_Set split: option.splits if_splits)

lemma fraud_effect:
  assumes "code (fst (patchUserFraud email now s)) = 200"
  shows "map (\<lambda>d. get_field d ''isAdvertised'') (tickets (snd (patchUserFraud email now s)))
           = map (\<lambda>d. get_field d ''isAdvertised'') (tickets s)"
    and "\<forall>d'\<in>set (tickets (snd (patchUserFraud email now s))).
           matches [(''vendorEmail'', JStr email)] d' \<longrightarrow>
             get_field d' ''verificationStatus'' = Some (JStr ''rejected'')
             \<and> \<not> matches advertised_query d'"
proof -
  let ?g = "\<lambda>d. if matches [(''vendorEmail'', JStr email)] d
                 then set_fields [(''verificationStatus'', JStr ''rejected'')] d else d"
  have t: "tickets (snd (patchUserFraud email now s)) = map ?g (tickets s)"
    using assms by (simp add: fraud_tickets)
  show "map (\<lambda>d. get_field d ''isAdvertised'') (tickets (snd (patchUserFraud email now s)))
           = map (\<lambda>d. get_field d ''isAdvertised'') (tickets s)"
    by (simp add: t get_set_fields_other)
  have g: "get_field (?g d) ''verificationStatus'' = Some (JStr ''rejected'')"
    if "matches [(''vendorEmail'', JStr email)] (?g d)" for d
    using that by (simp add: matches_set_fields set_fields_def get_set_field split: if_splits)
  show "\<forall>d'\<in>set (tickets (snd (patchUserFraud email now s))).
           matches [(''vendorEmail'', JStr email)] d' \<longrightarrow>
             get_field d' ''verificationStatus'' = Some (JStr ''rejected'')
             \<and> \<not> matches advertised_query d'"
  proof (intro ballI impI)
    fix d'
    assume "d' \<in> set (tickets (snd (patchUserFraud email now s)))"
      and m: "matches [(''vendorEmail'', JStr email)] d'"
    then have "d' \<in> ?g ` set (tickets s)" unfolding t by simp
    then obtain d where "d' = ?g d" by (rule imageE)
    with m g [of d] have "get_field d' ''verificationStatus'' = Some (JStr ''rejected'')"
      by simp
    then show "get_field d' ''verificationStatus'' = Some (JStr ''rejected'')
             \<and> \<not> matches advertised_query d'"
      by (simp add: rejected_not_advertised)
  qed
qed




lemma fraud_user_fields_twice:
  "set_fields [(''isFraud'', JBool True), (''updatedAt'', JDate now2)]
     (set_fields [(''isFraud'', JBool True), (''updatedAt'', JDate now1)] d)
   = set_fields [(''isFraud'', JBool True), (''updatedAt'', JDate now2)] d"
proof -
  let ?D = "set_field ''isFraud'' (JBool True) d"
  have "set_field ''isFraud'' (JBool True) (set_field ''updatedAt'' (JDate now1) ?D)
        = set_field ''updatedAt'' (JDate now1) (set_field ''isFraud'' (JBool True) ?D)"
    by (rule set_field_swap) (simp_all add: get_set_field)
  then show ?thesis by (simp add: set_fields_def set_field_twice)
qed

lemma fraud_twice:
  "snd (patchUserFraud email now2 (snd (patchUserFraud email now1 s)))
   = snd (patchUserFraud email now2 s)"
proof (cases "findOne [(''email'', JStr email), (''role'', JStr ''vendor'')] (users s)")
  case None
  then show ?thesis by (simp add: patchUserFraud_def updateOne_not_found)
next
  case (Some u)
  let ?q = "[(''email'', JStr email), (''role'', JStr ''vendor'')]"
  let ?k1 = "[(''isFraud'', JBool True), (''updatedAt'', JDate now1)]"
  let ?k2 = "[(''isFraud'', JBool True), (''updatedAt'', JDate now2)]"
  let ?g = "\<lambda>d. if matches [(''vendorEmail'', JStr email)] d
                 then set_fields [(''verificationStatus'', JStr ''rejected'')] d else d"
  from updateOne_Set_found [OF Some, of ?k1] obtain us1 where
    us1: "updateOne ?q (Set ?k1) (users s) = Some (1, us1)" by auto
  from updateOne_Set_found [OF Some, of ?k2] obtain us2 where
    us2: "updateOne ?q (Set ?k2) (users s) = Some (1, us2)" by auto
  have again: "updateOne ?q (Set ?k2) us1 = Some (1, us2)"
    using updateOne_Set_twice [OF _ fraud_user_fields_twice us1, of now2] us2 by simp
  have gg: "?g (?g d) = ?g d" for d
    by (simp add: matches_set_fields) (simp add: set_fields_def set_field_twice)
  have s1: "snd (patchUserFraud email now1 s) = s\<lparr>users := us1, tickets := map ?g (tickets s)\<rparr>"
    using us1 by (simp add: patchUserFraud_def updateMany_Set)
  have s2: "snd (patchUserFraud email now2 s) = s\<lparr>users := us2, tickets := map ?g (tickets s)\<rparr>"
    using us2 by (simp add: patchUserFraud_def updateMany_Set)
  have "snd (patchUserFraud email now2 (s\<lparr>users := us1, tickets := map ?g (tickets s)\<rparr>))
        = s\<lparr>users := us2, tickets := map ?g (tickets s)\<rparr>"
    using again gg by (simp add: patchUserFraud_def updateMany_Set)
  with s1 s2 show ?thesis by simp
qed

lemma fraud_keeps_rejected:
  assumes "d \<in> set (tickets s)"
    and "get_field d ''verificationStatus'' = Some (JStr ''rejected'')"
  shows "d \<in> set (tickets (snd (patchUserFraud email now s)))"
proof -
  let ?g = "\<lambda>d. if matches [(''vendorEmail'', JStr email)] d
                 then set_fields [(''verificationStatus'', JStr ''rejected'')] d else d"
  have "?g d = d"
    using assms(2) by (simp add: set_fields_def set_field_same)
  with assms(1) have i: "d \<in> ?g ` set (tickets s)" by (intro image_eqI [where x = d]) simp_all
  show ?thesis
  proof (cases "code (fst (patchUserFraud email now s)) = 200")
    case True
    then have "tickets (snd (patchUserFraud email now s)) = map ?g (tickets s)"
      by (simp add: fraud_tickets)
    with i show ?thesis by (simp only: set_map)
  next
    case False
    then have "tickets (snd (patchUserFraud email now s)) = tickets s"
      by (simp add: fraud_tickets)
    with assms(1) show ?thesis by simp
  qed
qed

text \<open>
  C6, as the code has it. \<^verbatim>\<open>PATCH /api/users/:email/fraud\<close> sets \<^verbatim>\<open>isFraud\<close> and
  \<^verbatim>\<open>updatedAt\<close> on the vendor and \<^verbatim>\<open>verificationStatus = 'rejected'\<close> on each of the vendor's
  tickets; it does not write \<^verbatim>\<open>isAdvertised\<close>. A second call at time \<open>now2\<close> after a first
  at time \<open>now1\<close> leaves the store that a single call at \<open>now2\<close> leaves (at equal times:
  the store the first call left). After a call answered 200 every ticket of the vendor is
  rejected and outside the advertised tickets, with the \<^verbatim>\<open>isAdvertised\<close> it had; a ticket
  that was rejected already is still there, unchanged.
\<close>

theorem patchUserFraud_idempotent:
  "snd (patchUserFraud email now2 (snd (patchUserFraud email now1 s)))
     = snd (patchUserFraud email now2 s)
   \<and> (code (fst (patchUserFraud email now1 s)) = 200 \<longrightarrow>
        map (\<lambda>d. get_field d ''isAdvertised'') (tickets (snd (patchUserFraud email now1 s)))
          = map (\<lambda>d. get_field d ''isAdvertised'') (tickets s)
        \<and> (\<forall>d'\<in>set (tickets (snd (patchUserFraud email now1 s))).
              matches [(''vendorEmail'', JStr email)] d' \<longrightarrow>
                get_field d' ''verificationStatus'' = Some (JStr ''rejected'')
                \<and> \<not> matches advertised_query d'))
   \<and> (\<forall>d\<in>set (tickets s).
         get_field d ''verificationStatus'' = Some (JStr ''rejected'') \<longrightarrow>
           d \<in> set (tickets (snd (patchUserFraud email now1 s))))"
proof (intro conjI impI ballI)
  show "snd (patchUserFraud email now2 (snd (patchUserFraud email now1 s)))
     = snd (patchUserFraud email now2 s)"
    by (rule fraud_twice)
next
  assume "code (fst (patchUserFraud email now1 s)) = 200"
  then show "map (\<lambda>d. get_field d ''isAdvertised'') (tickets (snd (patchUserFraud email now1 s)))
          = map (\<lambda>d. get_field d ''isAdvertised'') (tickets s)"
    by (rule fraud_effect(1))
next
  fix d'
  assume "code (fst (patchUserFraud email now1 s)) = 200"
    and "d' \<in> set (tickets (snd (patchUserFraud email now1 s)))"
    and "matches [(''vendorEmail'', JStr email)] d'"
  with fraud_effect(2) [of email now1 s]
  show "get_field d' ''verificationStatus'' = Some (JStr ''rejected'')"
    and "\<not> matches advertised_query d'"
    by blast+
next
  fix d
  assume "d \<in> set (tickets s)"
    and "get_field d ''verificationStatus'' = Some (JStr ''rejected'')"
  then show "d \<in> set (tickets (snd (patchUserFraud email now1 s)))"
    by (rule fraud_keeps_rejected)
qed

text \<open>
  The vendor of \<open>store0\<close> is marked twice, at times 9 and 10: the second call changes the
  time of the update and nothing else.
\<close>

theorem patchUserFraud_idempotent_witness:
  "code (fst (patchUserFraud ''v@x.io'' 9 store0)) = 200
   \<and> snd (patchUserFraud ''v@x.io'' 9 (snd (patchUserFraud ''v@x.io'' 9 store0)))
       = snd (patchUserFraud ''v@x.io'' 9 store0)
   \<and> snd (patchUserFraud ''v@x.io'' 10 (snd (patchUserFraud ''v@x.io'' 9 store0)))
       = snd (patchUserFraud ''v@x.io'' 10 store0)
   \<and> map (\<lambda>d. get_field d ''isAdvertised'') (tickets (snd (patchUserFraud ''v@x.io'' 9 store0)))
       = [Some (JBool True)]
   \<and> get_field (tickets (snd (patchUserFraud ''v@x.io'' 9 store0)) ! 0) ''verificationStatus''
       = Some (JStr ''rejected'')
   \<and> \<not> matches advertised_query (tickets (snd (patchUserFraud ''v@x.io'' 9 store0)) ! 0)
   \<and> ticket_a3 \<in> set (tickets (snd (patchUserFraud ''v@x.io'' 9 store1)))"
proof -
  have h: "code (fst (patchUserFraud ''v@x.io'' 9 store0)) = 200"
    "map (\<lambda>d. get_field d ''isAdvertised'') (tickets store0) = [Some (JBool True)]"
    "get_field ticket_a3 ''verificationStatus'' = Some (JStr ''rejected'')"
    "tickets store1 = [ticket_a3]"
    "tickets (snd (patchUserFraud ''v@x.io'' 9 store0)) ! 0
       \<in> set (tickets (snd (patchUserFraud ''v@x.io'' 9 store0)))"
    "matches [(''vendorEmail'', JStr ''v@x.io'')]
       (tickets (snd (patchUserFraud ''v@x.io'' 9 store0)) ! 0)"
    by code_simp+
  note t9 = patchUserFraud_idempotent [of "''v@x.io''" 9 9 store0]
  note t10 = patchUserFraud_idempotent [of "''v@x.io''" 10 9 store0]
  note t1 = patchUserFraud_idempotent [of "''v@x.io''" 9 9 store1]
  have a: "snd (patchUserFraud ''v@x.io'' 9 (snd (patchUserFraud ''v@x.io'' 9 store0)))
       = snd (patchUserFraud ''v@x.io'' 9 store0)"
    by (rule t9 [THEN conjunct1])
  have b: "snd (patchUserFraud ''v@x.io'' 10 (snd (patchUserFraud ''v@x.io'' 9 store0)))
       = snd (patchUserFraud ''v@x.io'' 10 store0)"
    by (rule t10 [THEN conjunct1])
  note c = t9 [THEN conjunct2, THEN conjunct1, rule_format, OF h(1)]
  have d: "map (\<lambda>d. get_field d ''isAdvertised'') (tickets (snd (patchUserFraud ''v@x.io'' 9 store0)))
       = [Some (JBool True)]"
    using c [THEN conjunct1] h(2) by (rule trans)
  note r = c [THEN conjunct2, rule_format, OF h(5,6)]
  have e: "ticket_a3 \<in> set (tickets (snd (patchUserFraud ''v@x.io'' 9 store1)))"
    by (rule t1 [THEN conjunct2, THEN conjunct2, rule_format, OF _ h(3)]) (simp add: h(4))
  from h(1) a b d r e show ?thesis
    by (intro conjI) simp_all
qed

text \<open>
  The claim fails on a vendor with an advertised ticket: after the call, answered 200, the
  ticket of \<open>store0\<close> is rejected and still has \<^verbatim>\<open>isAdvertised = true\<close>.
\<close>

theorem fraud_keeps_flag_counterexample:
  "patchUserFraud ''v@x.io'' 9 store0 =
     (Response 200 ''Vendor marked as fraud and all tickets hidden'',
      \<lparr>users = [[(''email'', JStr ''v@x.io''), (''role'', JStr ''vendor''),
                 (''isFraud'', JBool True), (''updatedAt'', JDate 9)]],
       tickets =
        [[(''_id'', JOid ''0000000000000000000000a1''), (''vendorEmail'', JStr ''v@x.io''),
          (''quantity'', JNum 2), (''verificationStatus'', JStr ''rejected''),
          (''isAdvertised'', JBool True)]],
       bookings =
        [[(''_id'', JOid ''0000000000000000000000b1''),
          (''ticketId'', JStr ''0000000000000000000000a1''),
          (''bookingQuantity'', JNum 3), (''status'', JStr ''accepted'')]],
       transactions = []\<rparr>)"
  by code_simp

section \<open>Who writes which field of a ticket\<close>















end
